theory Spec2Isabelle
  imports Main "HOL-Library.Sublist"
begin

section \<open>Values exchanged with the HTTP layer\<close>

text \<open>
  The server is an Express application. A request is seen by the code through
  \<^verbatim>\<open>req.path\<close>, \<^verbatim>\<open>req.get(name)\<close> and \<^verbatim>\<open>req.query[name]\<close>; a response is a status
  code and a JSON body. JavaScript strings are modelled as \<open>string\<close>; the only string
  operations the code uses are \<^verbatim>\<open>===\<close>, \<^verbatim>\<open>Array.includes\<close> and \<^verbatim>\<open>String.includes\<close>,
  all of which compare the code units one by one.
\<close>

datatype json =
    JNull
  | JBool bool
  | JNum int
  | JStr string
  | JObj "(string \<times> json) list"

record response =
  status :: int
  body :: json

text \<open>
  A parsed query value (the \<^verbatim>\<open>ParsedQs\<close> type of Express): a string, an array (a repeated
  parameter) or a nested object. A parameter that is not in the query string is
  \<^verbatim>\<open>undefined\<close>, modelled as \<open>None\<close>.
\<close>

datatype qvalue =
    QString string
  | QArray "qvalue list"
  | QObject "(string \<times> qvalue) list"

record Request =
  path :: string
  headers :: "string \<rightharpoonup> string"
  query :: "string \<rightharpoonup> qvalue"

definition req_get :: "Request \<Rightarrow> string \<Rightarrow> string option" where
  "req_get req name = headers req name"

text \<open>JavaScript truthiness of the values the middleware and the handler test.\<close>

fun truthy_string :: "string option \<Rightarrow> bool" where
  "truthy_string None = False"
| "truthy_string (Some s) = (s \<noteq> [])"

fun truthy_qvalue :: "qvalue option \<Rightarrow> bool" where
  "truthy_qvalue None = False"
| "truthy_qvalue (Some (QString s)) = (s \<noteq> [])"
| "truthy_qvalue (Some (QArray xs)) = True"
| "truthy_qvalue (Some (QObject kvs)) = True"

fun typeof_string :: "qvalue option \<Rightarrow> bool" where
  "typeof_string (Some (QString s)) = True"
| "typeof_string _ = False"

section \<open>Admission middleware\<close>

definition ALLOWED_USER_AGENTS :: "string list" where
  "ALLOWED_USER_AGENTS =
    [''UnityPlayer/2022.3.22f1-DWR (UnityWebRequest/1.0, libcurl/8.5.0-DEV)'',
     ''UnityPlayer/2022.3.22f1 (UnityWebRequest/1.0, libcurl/8.5.0-DEV)'']"

definition ALLOWED_UNITY_VERSIONS :: "string list" where
  "ALLOWED_UNITY_VERSIONS = [''2022.3.22f1-DWR'', ''2022.3.22f1'']"

definition ALLOWED_CALLED_FROM :: "string list" where
  "ALLOWED_CALLED_FROM = [''loveworld'', ''maxieworld'']"

definition not_found_response :: response where
  "not_found_response = \<lparr>status = 404, body = JObj [(''error'', JStr ''Not found'')]\<rparr>"

text \<open>
  \<^verbatim>\<open>req.query.calledfrom || req.get("x-called-from")\<close>: the query value when it is
  truthy, the header otherwise.
\<close>

definition calledFrom :: "Request \<Rightarrow> qvalue option" where
  "calledFrom req =
     (if truthy_qvalue (query req ''calledfrom'') then query req ''calledfrom''
      else map_option QString (req_get req ''x-called-from''))"

fun includes_string :: "string list \<Rightarrow> string option \<Rightarrow> bool" where
  "includes_string allowed (Some s) = (s \<in> set allowed)"
| "includes_string allowed None = False"

fun includes_qvalue :: "string list \<Rightarrow> qvalue option \<Rightarrow> bool" where
  "includes_qvalue allowed (Some (QString s)) = (s \<in> set allowed)"
| "includes_qvalue allowed _ = False"

text \<open>
  The validation middleware. \<open>None\<close> is the call of \<^verbatim>\<open>next()\<close>; \<open>Some r\<close> is the
  response sent, after which the middleware returns without calling \<^verbatim>\<open>next()\<close>.
\<close>

definition validation_middleware :: "Request \<Rightarrow> response option" where
  "validation_middleware req =
     (if path req = ''/health'' then None
      else
        let userAgent = req_get req ''user-agent'';
            unityVersion = req_get req ''x-unity-version'';
            cf = calledFrom req
        in if \<not> truthy_string userAgent \<or> \<not> includes_string ALLOWED_USER_AGENTS userAgent
           then Some not_found_response
           else if \<not> truthy_string unityVersion \<or> \<not> includes_string ALLOWED_UNITY_VERSIONS unityVersion
           then Some not_found_response
           else if \<not> truthy_qvalue cf \<or> \<not> typeof_string cf \<or> \<not> includes_qvalue ALLOWED_CALLED_FROM cf
           then Some not_found_response
           else None)"

section \<open>Cooldown manager\<close>

text \<open>
  Times are the millisecond values returned by \<^verbatim>\<open>Date.now()\<close>. The body of
  \<^verbatim>\<open>waitForCooldown\<close> runs in two pieces: the part up to the \<^verbatim>\<open>await\<close>, which reads the
  clock once and decides whether to sleep, and the assignment after it, which reads the
  clock again. When no sleep is needed both pieces run without interruption.
\<close>

record CooldownManager =
  lastRequestTime :: int

definition new_CooldownManager :: CooldownManager where
  "new_CooldownManager = \<lparr>lastRequestTime = 0\<rparr>"

definition cooldownMs :: int where
  "cooldownMs = 3000"

text \<open>Lines 14 to 18: the time to sleep, if any, for a clock reading \<open>now\<close>.\<close>

definition waitTime :: "int \<Rightarrow> CooldownManager \<Rightarrow> int option" where
  "waitTime now cm =
     (let timeSinceLastRequest = now - lastRequestTime cm
      in if timeSinceLastRequest < cooldownMs then Some (cooldownMs - timeSinceLastRequest)
         else None)"

text \<open>Line 23: the assignment, for a clock reading \<open>later\<close>.\<close>

definition record_request :: "int \<Rightarrow> CooldownManager \<Rightarrow> CooldownManager" where
  "record_request later cm = cm\<lparr>lastRequestTime := later\<rparr>"

text \<open>
  One call that nothing interleaves with. \<open>now\<close> is the clock at entry; the timer
  sleeps for the requested time or longer, and \<open>lag\<close> is everything that passes between
  entry and the assignment beyond the requested sleep.
\<close>

definition waitForCooldown :: "int \<Rightarrow> nat \<Rightarrow> CooldownManager \<Rightarrow> CooldownManager" where
  "waitForCooldown now lag cm =
     (case waitTime now cm of
        Some w \<Rightarrow> record_request (now + w + int lag) cm
      | None \<Rightarrow> record_request (now + int lag) cm)"

definition getTimeRemaining :: "int \<Rightarrow> CooldownManager \<Rightarrow> int" where
  "getTimeRemaining now cm =
     (let timeSinceLastRequest = now - lastRequestTime cm;
          remaining = cooldownMs - timeSinceLastRequest
      in if remaining > 0 then remaining else 0)"

text \<open>
  Several requests share the one manager. Express starts a handler for each request, and
  a handler that sleeps gives the event loop back, so the pieces of different calls
  interleave. An event is one uninterrupted piece: \<open>Enter i now later\<close> is caller \<open>i\<close>
  running the first piece at clock \<open>now\<close> (and, when it need not sleep, the assignment at
  clock \<open>later\<close>); \<open>Resume i t\<close> is the timer of caller \<open>i\<close> firing at clock \<open>t\<close>,
  which the timer allows only once the requested delay has passed.
\<close>

datatype caller =
    Idle
  | Sleeping int
  | Admitted int

datatype event =
    Enter nat int int
  | Resume nat int

record gate =
  manager :: CooldownManager
  callers :: "caller list"
  clock :: int

fun step :: "event \<Rightarrow> gate \<Rightarrow> gate option" where
  "step (Enter i now later) g =
     (if i < length (callers g) \<and> callers g ! i = Idle \<and> clock g \<le> now \<and> now \<le> later then
        (case waitTime now (manager g) of
           Some w \<Rightarrow> Some (g\<lparr>callers := (callers g)[i := Sleeping (now + w)], clock := now\<rparr>)
         | None \<Rightarrow> Some (g\<lparr>manager := record_request later (manager g),
                             callers := (callers g)[i := Admitted later], clock := later\<rparr>))
      else None)"
| "step (Resume i t) g =
     (if i < length (callers g) \<and> clock g \<le> t then
        (case callers g ! i of
           Sleeping due \<Rightarrow>
             if due \<le> t
             then Some (g\<lparr>manager := record_request t (manager g),
                            callers := (callers g)[i := Admitted t], clock := t\<rparr>)
             else None
         | _ \<Rightarrow> None)
      else None)"

fun run :: "event list \<Rightarrow> gate \<Rightarrow> gate option" where
  "run [] g = Some g"
| "run (e # es) g = (case step e g of None \<Rightarrow> None | Some g' \<Rightarrow> run es g')"

section \<open>Errors thrown by the upstream library and their translation\<close>

text \<open>
  What a \<^verbatim>\<open>catch\<close> can receive. The classes of the upstream library are kept apart, as
  the \<^verbatim>\<open>instanceof\<close> tests of the translator see them; \<open>Error\<close> is any other instance
  of \<^verbatim>\<open>Error\<close>, \<open>Object\<close> an object that is no \<^verbatim>\<open>Error\<close>, and \<open>Primitive\<close> a value that
  is no object at all. The string of \<open>Object\<close> and \<open>Primitive\<close> is \<^verbatim>\<open>String(value)\<close>. A
  \<open>property\<close> is one of the two properties the translator looks for on such a value,
  \<^verbatim>\<open>statusCode\<close> and \<^verbatim>\<open>response.status\<close>: not there, there but \<^verbatim>\<open>undefined\<close> or \<^verbatim>\<open>null\<close>,
  or a number. The translator tests for these two properties only on values that are
  none of the library's classes, so the other classes carry their message alone.
\<close>

datatype property =
    Absent
  | Nullish
  | Number int

datatype thrown =
    RequestError int string
  | UserNotAuthenticated string
  | BadRequestParameter string
  | InvalidUserAgent string
  | TOTPRequired string
  | EmailOtpRequired string
  | CookiesExpired string
  | CookiesNotFound string
  | Error string property property
  | Object string property property
  | Primitive string

record ErrorResponse =
  error :: string
  statusCode :: "int option"
  errorType :: "string option"

fun isAxiosLikeError :: "thrown \<Rightarrow> bool" where
  "isAxiosLikeError (Error m sc rs) = (sc \<noteq> Absent \<or> rs \<noteq> Absent)"
| "isAxiosLikeError (Object s sc rs) = (sc \<noteq> Absent \<or> rs \<noteq> Absent)"
| "isAxiosLikeError (RequestError sc m) = True"
| "isAxiosLikeError _ = False"

text \<open>\<^verbatim>\<open>error.statusCode ?? error.response?.status\<close>\<close>

fun nullish_coalesce :: "property \<Rightarrow> property \<Rightarrow> int option" where
  "nullish_coalesce (Number n) rs = Some n"
| "nullish_coalesce _ (Number m) = Some m"
| "nullish_coalesce _ _ = None"

fun status_property :: "thrown \<Rightarrow> int option" where
  "status_property (Error m sc rs) = nullish_coalesce sc rs"
| "status_property (Object s sc rs) = nullish_coalesce sc rs"
| "status_property _ = None"

fun getStatusCode :: "thrown \<Rightarrow> int option" where
  "getStatusCode (RequestError sc m) = Some sc"
| "getStatusCode e = (if isAxiosLikeError e then status_property e else None)"

fun instanceof_Error :: "thrown \<Rightarrow> bool" where
  "instanceof_Error (Object s sc rs) = False"
| "instanceof_Error (Primitive s) = False"
| "instanceof_Error _ = True"

fun message :: "thrown \<Rightarrow> string" where
  "message (RequestError sc m) = m"
| "message (UserNotAuthenticated m) = m"
| "message (BadRequestParameter m) = m"
| "message (InvalidUserAgent m) = m"
| "message (TOTPRequired m) = m"
| "message (EmailOtpRequired m) = m"
| "message (CookiesExpired m) = m"
| "message (CookiesNotFound m) = m"
| "message (Error m sc rs) = m"
| "message (Object s sc rs) = s"
| "message (Primitive s) = s"

text \<open>\<^verbatim>\<open>text.includes(part)\<close>\<close>

definition string_includes :: "string \<Rightarrow> string \<Rightarrow> bool" where
  "string_includes s part = sublist part s"

text \<open>The status chosen for a \<^verbatim>\<open>RequestError\<close>, lines 55 to 70.\<close>

definition httpStatus :: "int \<Rightarrow> int" where
  "httpStatus sc =
     (if sc = 401 then 401
      else if sc = 403 then 403
      else if sc = 404 then 404
      else if sc = 429 then 429
      else if sc \<ge> 400 \<and> sc < 500 then sc
      else if sc \<ge> 500 then 502
      else 500)"

text \<open>The last two branches: a plain \<^verbatim>\<open>Error\<close>, then anything else.\<close>

definition handle_generic :: "thrown \<Rightarrow> int \<times> ErrorResponse" where
  "handle_generic e =
     (if instanceof_Error e then
        (if string_includes (message e) ''network'' \<or> string_includes (message e) ''ECONNREFUSED''
            \<or> string_includes (message e) ''timeout''
         then (503, \<lparr>error = ''VRChat API is unavailable'', statusCode = None,
                     errorType = Some ''NetworkError''\<rparr>)
         else (500, \<lparr>error = message e, statusCode = None, errorType = Some ''Error''\<rparr>))
      else (500, \<lparr>error = ''An unknown error occurred'', statusCode = None,
                  errorType = Some ''UnknownError''\<rparr>))"

fun handleVRChatError :: "thrown \<Rightarrow> int \<times> ErrorResponse" where
  "handleVRChatError (RequestError sc m) =
     (httpStatus sc, \<lparr>error = m, statusCode = Some sc, errorType = Some ''RequestError''\<rparr>)"
| "handleVRChatError (UserNotAuthenticated m) =
     (401, \<lparr>error = ''VRChat client is not authenticated'', statusCode = Some 401,
            errorType = Some ''UserNotAuthenticated''\<rparr>)"
| "handleVRChatError (BadRequestParameter m) =
     (400, \<lparr>error = (if m \<noteq> [] then m else ''Invalid request parameter''), statusCode = None,
            errorType = Some ''BadRequestParameter''\<rparr>)"
| "handleVRChatError (InvalidUserAgent m) =
     (500, \<lparr>error = ''Invalid user agent configuration'', statusCode = None,
            errorType = Some ''InvalidUserAgent''\<rparr>)"
| "handleVRChatError (TOTPRequired m) =
     (500, \<lparr>error = ''2FA authentication required - check configuration'', statusCode = None,
            errorType = Some ''TOTPRequired''\<rparr>)"
| "handleVRChatError (EmailOtpRequired m) =
     (500, \<lparr>error = ''2FA authentication required - check configuration'', statusCode = None,
            errorType = Some ''EmailOtpRequired''\<rparr>)"
| "handleVRChatError (CookiesExpired m) =
     (500, \<lparr>error = ''Cookie authentication issue - may need to re-authenticate'',
            statusCode = None, errorType = Some ''CookiesExpired''\<rparr>)"
| "handleVRChatError (CookiesNotFound m) =
     (500, \<lparr>error = ''Cookie authentication issue - may need to re-authenticate'',
            statusCode = None, errorType = Some ''CookiesNotFound''\<rparr>)"
| "handleVRChatError e =
     (if isAxiosLikeError e then
        (case getStatusCode e of
           Some sc \<Rightarrow>
             if sc \<noteq> 0 then
               (if sc \<ge> 400 \<and> sc < 600 then sc else 500,
                \<lparr>error = (if instanceof_Error e then message e else ''HTTP request failed''),
                 statusCode = Some sc, errorType = Some ''HttpError''\<rparr>)
             else handle_generic e
         | None \<Rightarrow> handle_generic e)
      else handle_generic e)"

text \<open>
  \<^verbatim>\<open>res.status(statusCode).json(response)\<close>: a property that was never set is not
  written.
\<close>

definition json_of_ErrorResponse :: "ErrorResponse \<Rightarrow> json" where
  "json_of_ErrorResponse r =
     JObj ([(''error'', JStr (error r))]
           @ (case statusCode r of None \<Rightarrow> [] | Some n \<Rightarrow> [(''statusCode'', JNum n)])
           @ (case errorType r of None \<Rightarrow> [] | Some t \<Rightarrow> [(''errorType'', JStr t)]))"

definition error_response :: "thrown \<Rightarrow> response" where
  "error_response e =
     (case handleVRChatError e of (sc, r) \<Rightarrow> \<lparr>status = sc, body = json_of_ErrorResponse r\<rparr>)"

section \<open>Session manager\<close>

record LimitedUser =
  user_id :: string
  displayName :: string

record User = LimitedUser +
  ageVerificationStatus :: string

record CurrentUser = User +
  ageVerified :: bool
  isAdult :: bool

definition Hidden :: string where
  "Hidden = ''hidden''"

definition Verified_18_Plus :: string where
  "Verified_18_Plus = ''18+''"

record VRChatAPI =
  username :: string
  password :: string
  userAgent :: string
  TwoFactorAuthSecret :: "string option"
  useCookies :: bool
  cookiePath :: string
  api_currentUser :: "CurrentUser option"

record VRChatClient =
  api :: "VRChatAPI option"
  isAuthenticated :: bool
  currentUser :: "CurrentUser option"
  initializationError :: "thrown option"

definition new_VRChatClient :: VRChatClient where
  "new_VRChatClient =
     \<lparr>api = None, isAuthenticated = False, currentUser = None, initializationError = None\<rparr>"

text \<open>\<^verbatim>\<open>value || fallback\<close> on an environment variable.\<close>

fun or_default :: "string option \<Rightarrow> string \<Rightarrow> string" where
  "or_default None d = d"
| "or_default (Some s) d = (if s \<noteq> [] then s else d)"

text \<open>\<^verbatim>\<open>error instanceof Error ? error : new Error(String(error))\<close>\<close>

definition as_Error :: "thrown \<Rightarrow> thrown" where
  "as_Error e = (if instanceof_Error e then e else Error (message e) Absent Absent)"

text \<open>The \<^verbatim>\<open>catch\<close> block of \<^verbatim>\<open>initialize\<close>.\<close>

definition initialize_catch :: "thrown \<Rightarrow> VRChatClient \<Rightarrow> (thrown + unit) \<times> VRChatClient" where
  "initialize_catch e c =
     (let err = as_Error e
      in (Inl err, c\<lparr>initializationError := Some err, isAuthenticated := False\<rparr>))"

text \<open>
  \<open>env\<close> is \<^verbatim>\<open>process.env\<close>. \<open>login\<close> is the upstream handshake \<^verbatim>\<open>this.api.login()\<close>:
  it throws, or returns with \<^verbatim>\<open>api.currentUser\<close> set to what the upstream answered.
\<close>

definition initialize ::
  "(string \<rightharpoonup> string) \<Rightarrow> (VRChatAPI \<Rightarrow> thrown + CurrentUser option) \<Rightarrow> VRChatClient
     \<Rightarrow> (thrown + unit) \<times> VRChatClient" where
  "initialize env login c =
     (if isAuthenticated c \<and> api c \<noteq> None then (Inr (), c)
      else
        let usr = env ''VRCHAT_USERNAME'';
            pwd = env ''VRCHAT_PASSWORD'';
            twoFactorAuthSecret = env ''VRCHAT_2FA_SECRET'';
            agent = or_default (env ''USER_AGENT'') ''VRChatProxyAdultCheck/1.0.0'';
            cookies = (env ''USE_COOKIES'' \<noteq> Some ''false'');
            cpath = or_default (env ''COOKIES_PATH'') ''./cookies.json''
        in case (usr, pwd) of
             (Some u, Some p) \<Rightarrow>
               if u = [] \<or> p = [] then
                 initialize_catch
                   (Error ''VRCHAT_USERNAME and VRCHAT_PASSWORD are required in .env file''
                      Absent Absent) c
               else
                 let a = \<lparr>username = u, password = p, userAgent = agent,
                          TwoFactorAuthSecret = twoFactorAuthSecret, useCookies = cookies,
                          cookiePath = cpath, api_currentUser = None\<rparr>;
                     c1 = c\<lparr>api := Some a\<rparr>
                 in (case login a of
                       Inl e \<Rightarrow> initialize_catch e c1
                     | Inr None \<Rightarrow>
                         initialize_catch
                           (Error ''Authentication failed: currentUser is null'' Absent Absent) c1
                     | Inr (Some cu) \<Rightarrow>
                         (Inr (),
                          c1\<lparr>api := Some (a\<lparr>api_currentUser := Some cu\<rparr>),
                             currentUser := Some cu, isAuthenticated := True,
                             initializationError := None\<rparr>))
           | _ \<Rightarrow>
               initialize_catch
                 (Error ''VRCHAT_USERNAME and VRCHAT_PASSWORD are required in .env file''
                    Absent Absent) c)"

definition getApi :: "VRChatClient \<Rightarrow> thrown + VRChatAPI" where
  "getApi c =
     (case api c of
        None \<Rightarrow> Inl (Error ''VRChat client is not initialized or authenticated'' Absent Absent)
      | Some a \<Rightarrow>
          if \<not> isAuthenticated c
          then Inl (Error ''VRChat client is not initialized or authenticated'' Absent Absent)
          else Inr a)"

definition getCurrentUser :: "VRChatClient \<Rightarrow> CurrentUser option" where
  "getCurrentUser c = currentUser c"

definition isReady :: "VRChatClient \<Rightarrow> bool" where
  "isReady c = (isAuthenticated c \<and> api c \<noteq> None \<and> currentUser c \<noteq> None)"

definition getInitializationError :: "VRChatClient \<Rightarrow> thrown option" where
  "getInitializationError c = initializationError c"

text \<open>
  A history of calls of \<^verbatim>\<open>initialize\<close>, each with the environment and the upstream it
  met: the outcome of every call, and the client after the last one.
\<close>

fun initialize_all ::
  "((string \<rightharpoonup> string) \<times> (VRChatAPI \<Rightarrow> thrown + CurrentUser option)) list \<Rightarrow> VRChatClient
     \<Rightarrow> (thrown + unit) list \<times> VRChatClient" where
  "initialize_all [] c = ([], c)"
| "initialize_all ((env, login) # rest) c =
     (case initialize env login c of
        (r, c') \<Rightarrow> (case initialize_all rest c' of (rs, c'') \<Rightarrow> (r # rs, c'')))"

section \<open>Request handlers\<close>

text \<open>
  The upstream, as the handler meets it during one request: the answer (or the error
  thrown) of \<^verbatim>\<open>api.userApi.searchAllUsers({search, n, fuzzy})\<close> and of
  \<^verbatim>\<open>api.userApi.getUserById({userId})\<close>. Every call made is logged in \<open>calls\<close>.
\<close>

record upstream =
  searchAllUsers :: "string \<Rightarrow> nat \<Rightarrow> bool \<Rightarrow> thrown + LimitedUser list"
  getUserById :: "string \<Rightarrow> thrown + User"

datatype upstream_call =
    SearchAllUsers string nat bool
  | GetUserById string

record world =
  client :: VRChatClient
  cooldown :: CooldownManager
  calls :: "upstream_call list"

text \<open>The \<^verbatim>\<open>/health\<close> handler; \<open>ts\<close> is \<^verbatim>\<open>new Date().toISOString()\<close>.\<close>

definition health :: "string \<Rightarrow> VRChatClient \<Rightarrow> response" where
  "health ts c =
     (if \<not> isReady c then
        \<lparr>status = 503,
         body = JObj [(''status'', JStr ''unhealthy''),
                      (''timestamp'', JStr ts),
                      (''error'', JStr (case getInitializationError c of
                                          Some e \<Rightarrow> message e
                                        | None \<Rightarrow> ''VRChat client not initialized'')),
                      (''vrchatClientReady'', JBool False)]\<rparr>
      else
        \<lparr>status = 200,
         body = JObj [(''status'', JStr ''healthy''),
                      (''timestamp'', JStr ts),
                      (''vrchatClientReady'', JBool True),
                      (''authenticatedUser'', (case getCurrentUser c of
                                                 Some u \<Rightarrow> JStr (displayName u)
                                               | None \<Rightarrow> JNull))]\<rparr>)"

definition bad_request_response :: response where
  "bad_request_response =
     \<lparr>status = 400,
      body = JObj [(''error'', JStr ''Username query parameter is required and must be a string'')]\<rparr>"

definition user_not_found_response :: response where
  "user_not_found_response = \<lparr>status = 404, body = JObj [(''error'', JStr ''User not found'')]\<rparr>"

definition no_exact_match_response :: response where
  "no_exact_match_response =
     \<lparr>status = 404,
      body = JObj [(''error'', JStr ''User not found with exact displayName match'')]\<rparr>"

text \<open>
  The loop of lines 158 to 167 over the search results: the calls it makes, and the error
  thrown or the value of \<^verbatim>\<open>matchedUser\<close> after it.
\<close>

fun find_matchedUser ::
  "upstream \<Rightarrow> string \<Rightarrow> LimitedUser list \<Rightarrow> upstream_call list \<times> (thrown + User option)" where
  "find_matchedUser up name [] = ([], Inr None)"
| "find_matchedUser up name (searchResult # rest) =
     (if displayName searchResult = name then
        ([GetUserById (user_id searchResult)],
         (case getUserById up (user_id searchResult) of
            Inl e \<Rightarrow> Inl e
          | Inr fullUser \<Rightarrow> Inr (Some fullUser)))
      else find_matchedUser up name rest)"

definition success_response :: "User \<Rightarrow> response" where
  "success_response matchedUser =
     (let isAgeVerified = (ageVerificationStatus matchedUser = Verified_18_Plus)
      in \<lparr>status = 200,
          body = JObj [(''age-verified'', JStr (if isAgeVerified then ''true'' else ''false'')),
                       (''username'', JStr (displayName matchedUser))]\<rparr>)"

text \<open>
  The body of the \<^verbatim>\<open>try\<close> block once the name has passed validation; \<open>Inl\<close> is an
  error thrown, which the \<^verbatim>\<open>catch\<close> block translates.
\<close>

definition resolve ::
  "upstream \<Rightarrow> int \<Rightarrow> nat \<Rightarrow> string \<Rightarrow> world \<Rightarrow> (thrown + response) \<times> world" where
  "resolve up now lag name w =
     (let w1 = w\<lparr>cooldown := waitForCooldown now lag (cooldown w)\<rparr>
      in case getApi (client w1) of
           Inl e \<Rightarrow> (Inl e, w1)
         | Inr a \<Rightarrow>
             let w2 = w1\<lparr>calls := calls w1 @ [SearchAllUsers name 100 False]\<rparr>
             in (case searchAllUsers up name 100 False of
                   Inl e \<Rightarrow> (Inl e, w2)
                 | Inr searchResults \<Rightarrow>
                     if length searchResults = 0 then (Inr user_not_found_response, w2)
                     else
                       (case find_matchedUser up name searchResults of
                          (cs, r) \<Rightarrow>
                            let w3 = w2\<lparr>calls := calls w2 @ cs\<rparr>
                            in (case r of
                                  Inl e \<Rightarrow> (Inl e, w3)
                                | Inr None \<Rightarrow> (Inr no_exact_match_response, w3)
                                | Inr (Some matchedUser) \<Rightarrow>
                                    (Inr (success_response matchedUser), w3)))))"

text \<open>
  The \<^verbatim>\<open>/checkAdultStatus\<close> handler. \<open>now\<close> and \<open>lag\<close> are the clock readings of the
  cooldown wait. Past the test of line 130 the value is a non-empty string; the last case
  of the case distinction only closes it.
\<close>

definition checkAdultStatus ::
  "upstream \<Rightarrow> int \<Rightarrow> nat \<Rightarrow> Request \<Rightarrow> world \<Rightarrow> response \<times> world" where
  "checkAdultStatus up now lag req w =
     (let dn = query req ''username''
      in if \<not> truthy_qvalue dn \<or> \<not> typeof_string dn then (bad_request_response, w)
         else
           (case dn of
              Some (QString name) \<Rightarrow>
                (case resolve up now lag name w of
                   (Inl e, w') \<Rightarrow> (error_response e, w')
                 | (Inr r, w') \<Rightarrow> (r, w'))
            | _ \<Rightarrow> (bad_request_response, w)))"

text \<open>
  The application. Which route a request reaches once the middleware has called
  \<^verbatim>\<open>next()\<close> is decided by the Express router, outside this code; it is an input here.
  A request that matches no route is left to Express.
\<close>

datatype route =
    Route_health
  | Route_checkAdultStatus
  | No_route

definition app ::
  "upstream \<Rightarrow> string \<Rightarrow> int \<Rightarrow> nat \<Rightarrow> route \<Rightarrow> Request \<Rightarrow> world \<Rightarrow> response option \<times> world" where
  "app up ts now lag rt req w =
     (case validation_middleware req of
        Some r \<Rightarrow> (Some r, w)
      | None \<Rightarrow>
          (case rt of
             Route_health \<Rightarrow> (Some (health ts (client w)), w)
           | Route_checkAdultStatus \<Rightarrow>
               (case checkAdultStatus up now lag req w of (r, w') \<Rightarrow> (Some r, w'))
           | No_route \<Rightarrow> (None, w)))"

text \<open>Reading one member of a JSON object, to state what a response body carries.\<close>

fun json_field :: "string \<Rightarrow> json \<Rightarrow> json option" where
  "json_field k (JObj kvs) = map_of kvs k"
| "json_field k _ = None"

section \<open>Example inputs\<close>

definition unity_headers :: "string \<rightharpoonup> string" where
  "unity_headers =
     [''user-agent'' \<mapsto> ''UnityPlayer/2022.3.22f1 (UnityWebRequest/1.0, libcurl/8.5.0-DEV)'',
      ''x-unity-version'' \<mapsto> ''2022.3.22f1'']"

definition check_request :: "(string \<rightharpoonup> string) \<Rightarrow> (string \<rightharpoonup> qvalue) \<Rightarrow> Request" where
  "check_request hs q = \<lparr>path = ''/checkAdultStatus'', headers = hs, query = q\<rparr>"

definition name_request :: "string \<Rightarrow> Request" where
  "name_request name =
     check_request unity_headers
       [''username'' \<mapsto> QString name, ''calledfrom'' \<mapsto> QString ''loveworld'']"

definition nameless_request :: Request where
  "nameless_request = check_request unity_headers [''calledfrom'' \<mapsto> QString ''loveworld'']"

definition repeated_name_request :: Request where
  "repeated_name_request =
     check_request unity_headers
       [''username'' \<mapsto> QArray [QString ''Alice'', QString ''Bob''],
        ''calledfrom'' \<mapsto> QString ''loveworld'']"

definition bad_agent_request :: Request where
  "bad_agent_request =
     check_request (unity_headers(''user-agent'' \<mapsto> ''curl/8.5.0''))
       [''username'' \<mapsto> QString ''Alice'', ''calledfrom'' \<mapsto> QString ''loveworld'']"

definition bad_version_request :: Request where
  "bad_version_request =
     check_request (unity_headers(''x-unity-version'' \<mapsto> ''2021.3.1f1''))
       [''username'' \<mapsto> QString ''Alice'', ''calledfrom'' \<mapsto> QString ''loveworld'']"

definition bad_tag_request :: Request where
  "bad_tag_request =
     check_request unity_headers
       [''username'' \<mapsto> QString ''Alice'', ''calledfrom'' \<mapsto> QString ''otherworld'']"

definition query_and_header_request :: Request where
  "query_and_header_request =
     check_request (unity_headers(''x-called-from'' \<mapsto> ''loveworld''))
       [''username'' \<mapsto> QString ''Alice'', ''calledfrom'' \<mapsto> QString ''otherworld'']"

definition repeated_tag_request :: Request where
  "repeated_tag_request =
     check_request (unity_headers(''x-called-from'' \<mapsto> ''loveworld''))
       [''username'' \<mapsto> QString ''Alice'',
        ''calledfrom'' \<mapsto> QArray [QString ''loveworld'', QString ''loveworld'']]"

definition empty_tag_request :: Request where
  "empty_tag_request =
     check_request (unity_headers(''x-called-from'' \<mapsto> ''loveworld''))
       [''username'' \<mapsto> QString ''Alice'', ''calledfrom'' \<mapsto> QString []]"

definition alice_candidates :: "LimitedUser list" where
  "alice_candidates =
     [\<lparr>user_id = ''usr_1'', displayName = ''alice''\<rparr>,
      \<lparr>user_id = ''usr_2'', displayName = ''Alice''\<rparr>,
      \<lparr>user_id = ''usr_3'', displayName = ''Alice2''\<rparr>,
      \<lparr>user_id = ''usr_4'', displayName = ''Alice''\<rparr>]"

definition alice_profile :: User where
  "alice_profile =
     \<lparr>user_id = ''usr_2'', displayName = ''Alice'', ageVerificationStatus = ''18+''\<rparr>"

definition carol_profile :: User where
  "carol_profile =
     \<lparr>user_id = ''usr_6'', displayName = ''Carol'', ageVerificationStatus = ''hidden''\<rparr>"

definition example_upstream :: upstream where
  "example_upstream =
     \<lparr>searchAllUsers = (\<lambda>search n fuzzy.
         if search = ''Alice'' then Inr alice_candidates
         else if search = ''Bob'' then Inr [\<lparr>user_id = ''usr_5'', displayName = ''bob''\<rparr>]
         else if search = ''Carol'' then Inr [\<lparr>user_id = ''usr_6'', displayName = ''Carol''\<rparr>]
         else Inr []),
       getUserById = (\<lambda>userId.
         if userId = ''usr_2'' then Inr alice_profile
         else if userId = ''usr_6'' then Inr carol_profile
         else Inl (RequestError 404 ''User not found''))\<rparr>"

definition proxy_account :: CurrentUser where
  "proxy_account =
     \<lparr>user_id = ''usr_0'', displayName = ''Proxy'', ageVerificationStatus = ''18+'',
      ageVerified = True, isAdult = True\<rparr>"

definition good_env :: "string \<rightharpoonup> string" where
  "good_env = [''VRCHAT_USERNAME'' \<mapsto> ''proxy'', ''VRCHAT_PASSWORD'' \<mapsto> ''secret'']"

definition proxy_api :: VRChatAPI where
  "proxy_api =
     \<lparr>username = ''proxy'', password = ''secret'', userAgent = ''VRChatProxyAdultCheck/1.0.0'',
      TwoFactorAuthSecret = None, useCookies = True, cookiePath = ''./cookies.json'',
      api_currentUser = Some proxy_account\<rparr>"

definition ready_client :: VRChatClient where
  "ready_client = snd (initialize good_env (\<lambda>a. Inr (Some proxy_account)) new_VRChatClient)"

definition ready_world :: world where
  "ready_world = \<lparr>client = ready_client, cooldown = \<lparr>lastRequestTime = 10000\<rparr>, calls = []\<rparr>"

definition failed_attempts ::
  "((string \<rightharpoonup> string) \<times> (VRChatAPI \<Rightarrow> thrown + CurrentUser option)) list" where
  "failed_attempts =
     [(Map.empty, \<lambda>a. Inr (Some proxy_account)),
      (good_env, \<lambda>a. Inl (RequestError 401 ''Invalid Username/Email or Password'')),
      (good_env, \<lambda>a. Inr None),
      (good_env, \<lambda>a. Inl (Primitive ''socket hang up''))]"

text \<open>
  Two requests that arrive 500 ms and 600 ms after the last admission, at clock 10000,
  and whose timers both fire when the cooldown of that admission ends.
\<close>

definition two_callers :: gate where
  "two_callers = \<lparr>manager = \<lparr>lastRequestTime = 10000\<rparr>, callers = [Idle, Idle], clock = 10000\<rparr>"

definition overlapping_schedule :: "event list" where
  "overlapping_schedule = [Enter 0 10500 10500, Enter 1 10600 10600, Resume 0 13000, Resume 1 13000]"

section \<open>Auxiliary facts\<close>

lemma includes_string_iff:
  "includes_string allowed v \<longleftrightarrow> (\<exists>s. v = Some s \<and> s \<in> set allowed)"
  by (cases v) auto

lemma includes_qvalue_iff:
  "includes_qvalue allowed v \<longleftrightarrow> (\<exists>s. v = Some (QString s) \<and> s \<in> set allowed)"
  by (cases "(allowed, v)" rule: includes_qvalue.cases) auto

lemma find_matchedUser_first:
  assumes "\<forall>x\<in>set before. displayName x \<noteq> name" and "displayName c = name"
  shows "find_matchedUser up name (before @ c # rest) =
           ([GetUserById (user_id c)],
            (case getUserById up (user_id c) of Inl e \<Rightarrow> Inl e | Inr u \<Rightarrow> Inr (Some u)))"
  using assms by (induction before) simp_all

lemma find_matchedUser_none:
  assumes "\<forall>x\<in>set rs. displayName x \<noteq> name"
  shows "find_matchedUser up name rs = ([], Inr None)"
  using assms by (induction rs) simp_all

lemma checkAdultStatus_named:
  assumes "query req ''username'' = Some (QString name)" and "name \<noteq> []"
  shows "checkAdultStatus up now lag req w =
           (case resolve up now lag name w of
              (Inl e, w') \<Rightarrow> (error_response e, w')
            | (Inr r, w') \<Rightarrow> (r, w'))"
  using assms by (simp add: checkAdultStatus_def Let_def)

lemma resolve_found:
  assumes "getApi (client w) = Inr a"
    and "searchAllUsers up name 100 False = Inr (before @ c # rest)"
    and "\<forall>x\<in>set before. displayName x \<noteq> name" and "displayName c = name"
  shows "resolve up now lag name w =
           ((case getUserById up (user_id c) of Inl e \<Rightarrow> Inl e | Inr u \<Rightarrow> Inr (success_response u)),
            w\<lparr>cooldown := waitForCooldown now lag (cooldown w),
              calls := calls w @ [SearchAllUsers name 100 False, GetUserById (user_id c)]\<rparr>)"
  using assms find_matchedUser_first [OF assms(3,4), of up rest]
  by (simp add: resolve_def Let_def split: sum.splits)

lemma resolve_not_found:
  assumes "getApi (client w) = Inr a"
    and "searchAllUsers up name 100 False = Inr rs"
    and "\<forall>x\<in>set rs. displayName x \<noteq> name"
  shows "resolve up now lag name w =
           (Inr (if rs = [] then user_not_found_response else no_exact_match_response),
            w\<lparr>cooldown := waitForCooldown now lag (cooldown w),
              calls := calls w @ [SearchAllUsers name 100 False]\<rparr>)"
  using assms find_matchedUser_none [OF assms(3), of up]
  by (simp add: resolve_def Let_def)

lemma initialize_failure:
  assumes "initialize env login c = (Inl e, c')"
  shows "\<not> isAuthenticated c' \<and> initializationError c' = Some e"
  using assms
  by (auto simp add: initialize_def Let_def initialize_catch_def
           split: if_splits option.splits sum.splits)

lemma initialize_all_failed:
  assumes "initialize_all attempts c = (outcomes, c')" and "\<forall>r\<in>set outcomes. isl r"
    and "\<not> isAuthenticated c"
  shows "\<not> isAuthenticated c'
       \<and> (outcomes \<noteq> [] \<longrightarrow> (\<exists>e. last outcomes = Inl e \<and> initializationError c' = Some e))"
  using assms
proof (induction attempts arbitrary: c outcomes c')
  case Nil
  then show ?case by simp
next
  case (Cons at rest)
  obtain env login where at: "at = (env, login)" by (cases at)
  obtain r c1 where one: "initialize env login c = (r, c1)" by (cases "initialize env login c")
  obtain rs c2 where more: "initialize_all rest c1 = (rs, c2)" by (cases "initialize_all rest c1")
  from Cons.prems(1) at one more have out: "outcomes = r # rs" and c': "c' = c2" by simp_all
  from Cons.prems(2) out obtain e where r: "r = Inl e" by (cases r) auto
  from initialize_failure one r
  have c1: "\<not> isAuthenticated c1" and e1: "initializationError c1 = Some e" by blast+
  from Cons.prems(2) out have "\<forall>r\<in>set rs. isl r" by simp
  from Cons.IH [OF more this c1]
  have ih: "\<not> isAuthenticated c2"
    "rs \<noteq> [] \<longrightarrow> (\<exists>e. last rs = Inl e \<and> initializationError c2 = Some e)" by blast+
  show ?case
  proof (cases rs)
    case Nil
    with more have "rest = [] \<or> rest \<noteq> []" by simp
    from Nil more have "c2 = c1" by (cases rest) (auto split: prod.splits)
    with c1 e1 out r c' Nil show ?thesis by simp
  next
    case (Cons x xs)
    with ih out c' show ?thesis by simp
  qed
qed

lemma ready_world_api: "getApi (client ready_world) = Inr proxy_api"
  by (simp add: ready_world_def ready_client_def initialize_def good_env_def getApi_def
        new_VRChatClient_def proxy_api_def Let_def)

lemma name_request_username: "query (name_request name) ''username'' = Some (QString name)"
  by (simp add: name_request_def check_request_def)

section \<open>The claims\<close>

subsection \<open>C1: scan and stop\<close>

text \<open>
  Claim C1. Whatever list the upstream search returns, the handler walks it in the order
  returned and stops at the first candidate whose display name equals the requested name
  character by character. The profile is fetched by identifier for that candidate and
  for no other: the upstream sees the search and exactly one fetch, and the response is
  built from that fetch alone, whatever follows the candidate in the list.
\<close>

theorem scan_and_stop:
  assumes "query req ''username'' = Some (QString name)" and "name \<noteq> []"
    and "getApi (client w) = Inr a"
    and "searchAllUsers up name 100 False = Inr (before @ c # rest)"
    and "\<forall>x\<in>set before. displayName x \<noteq> name" and "displayName c = name"
  shows "calls (snd (checkAdultStatus up now lag req w)) =
           calls w @ [SearchAllUsers name 100 False, GetUserById (user_id c)]
       \<and> fst (checkAdultStatus up now lag req w) =
           (case getUserById up (user_id c) of
              Inl e \<Rightarrow> error_response e
            | Inr fullUser \<Rightarrow> success_response fullUser)"
  unfolding checkAdultStatus_named [OF assms(1,2)] resolve_found [OF assms(3-6)]
  by (simp split: sum.splits)

text \<open>
  The candidates alice, Alice, Alice2, Alice for a search on Alice: the first is passed over
  for its case, the second is fetched, the last two are never looked at.
\<close>

theorem scan_and_stop_witness:
  "calls (snd (checkAdultStatus example_upstream 10500 0 (name_request ''Alice'') ready_world)) =
     [SearchAllUsers ''Alice'' 100 False, GetUserById ''usr_2'']
 \<and> fst (checkAdultStatus example_upstream 10500 0 (name_request ''Alice'') ready_world) =
     \<lparr>status = 200,
      body = JObj [(''age-verified'', JStr ''true''), (''username'', JStr ''Alice'')]\<rparr>"
proof -
  have search: "searchAllUsers example_upstream ''Alice'' 100 False =
      Inr ([\<lparr>user_id = ''usr_1'', displayName = ''alice''\<rparr>]
           @ \<lparr>user_id = ''usr_2'', displayName = ''Alice''\<rparr>
           # [\<lparr>user_id = ''usr_3'', displayName = ''Alice2''\<rparr>,
              \<lparr>user_id = ''usr_4'', displayName = ''Alice''\<rparr>])"
    by (simp add: example_upstream_def alice_candidates_def)
  have before: "\<forall>x\<in>set [\<lparr>user_id = ''usr_1'', displayName = ''alice''\<rparr>]. displayName x \<noteq> ''Alice''"
    by simp
  have hit: "displayName \<lparr>user_id = ''usr_2'', displayName = ''Alice''\<rparr> = ''Alice''"
    by simp
  have name: "''Alice'' \<noteq> []" by simp
  from scan_and_stop [OF name_request_username name ready_world_api search before hit, of 10500 0]
  show ?thesis
    by (simp add: example_upstream_def alice_profile_def success_response_def
          Verified_18_Plus_def ready_world_def)
qed

subsection \<open>C2: classification\<close>

text \<open>
  Claim C2. For a request that resolves to a full profile, the response is 200 and its
  member age-verified is the string true exactly when the profile's verification field is
  the 18+ marker; any other value of the field, the hidden marker among them, gives the
  string false.
\<close>

theorem classification_iff_18_plus:
  assumes "query req ''username'' = Some (QString name)" and "name \<noteq> []"
    and "getApi (client w) = Inr a"
    and "searchAllUsers up name 100 False = Inr (before @ c # rest)"
    and "\<forall>x\<in>set before. displayName x \<noteq> name" and "displayName c = name"
    and "getUserById up (user_id c) = Inr profile"
  shows "status (fst (checkAdultStatus up now lag req w)) = 200
       \<and> (json_field ''age-verified'' (body (fst (checkAdultStatus up now lag req w))) = Some (JStr ''true'')
            \<longleftrightarrow> ageVerificationStatus profile = ''18+'')
       \<and> (ageVerificationStatus profile \<noteq> ''18+'' \<longrightarrow>
            json_field ''age-verified'' (body (fst (checkAdultStatus up now lag req w))) = Some (JStr ''false''))
       \<and> (ageVerificationStatus profile = ''hidden'' \<longrightarrow>
            json_field ''age-verified'' (body (fst (checkAdultStatus up now lag req w))) = Some (JStr ''false''))"
  unfolding checkAdultStatus_named [OF assms(1,2)] resolve_found [OF assms(3-6)]
  using assms(7) by (simp add: success_response_def Verified_18_Plus_def)

text \<open>
  A profile verified as 18+ and a profile whose status is hidden.
\<close>

theorem classification_iff_18_plus_witness:
  "json_field ''age-verified''
     (body (fst (checkAdultStatus example_upstream 10500 0 (name_request ''Alice'') ready_world)))
     = Some (JStr ''true'')
 \<and> json_field ''age-verified''
     (body (fst (checkAdultStatus example_upstream 10500 0 (name_request ''Carol'') ready_world)))
     = Some (JStr ''false'')"
proof -
  have search_a: "searchAllUsers example_upstream ''Alice'' 100 False =
      Inr ([\<lparr>user_id = ''usr_1'', displayName = ''alice''\<rparr>]
           @ \<lparr>user_id = ''usr_2'', displayName = ''Alice''\<rparr>
           # [\<lparr>user_id = ''usr_3'', displayName = ''Alice2''\<rparr>,
              \<lparr>user_id = ''usr_4'', displayName = ''Alice''\<rparr>])"
    by (simp add: example_upstream_def alice_candidates_def)
  have before_a: "\<forall>x\<in>set [\<lparr>user_id = ''usr_1'', displayName = ''alice''\<rparr>]. displayName x \<noteq> ''Alice''"
    by simp
  have hit_a: "displayName \<lparr>user_id = ''usr_2'', displayName = ''Alice''\<rparr> = ''Alice''"
    by simp
  have fetch_a: "getUserById example_upstream (user_id \<lparr>user_id = ''usr_2'', displayName = ''Alice''\<rparr>)
      = Inr alice_profile"
    by (simp add: example_upstream_def)
  have name_a: "''Alice'' \<noteq> []" by simp
  have search_c: "searchAllUsers example_upstream ''Carol'' 100 False =
      Inr ([] @ \<lparr>user_id = ''usr_6'', displayName = ''Carol''\<rparr> # [])"
    by (simp add: example_upstream_def)
  have before_c: "\<forall>x\<in>set ([] :: LimitedUser list). displayName x \<noteq> ''Carol''"
    by simp
  have hit_c: "displayName \<lparr>user_id = ''usr_6'', displayName = ''Carol''\<rparr> = ''Carol''"
    by simp
  have fetch_c: "getUserById example_upstream (user_id \<lparr>user_id = ''usr_6'', displayName = ''Carol''\<rparr>)
      = Inr carol_profile"
    by (simp add: example_upstream_def)
  have name_c: "''Carol'' \<noteq> []" by simp
  from classification_iff_18_plus
         [OF name_request_username name_a ready_world_api search_a before_a hit_a fetch_a, of 10500 0]
       classification_iff_18_plus
         [OF name_request_username name_c ready_world_api search_c before_c hit_c fetch_c, of 10500 0]
  show ?thesis
    by (simp add: alice_profile_def carol_profile_def)
qed

subsection \<open>C3: spacing of admissions\<close>

text \<open>
  With one caller, the events of a call leave the manager as \<open>waitForCooldown\<close> does.
\<close>

lemma run_single_caller:
  assumes "callers g = [Idle]" and "clock g \<le> now"
  shows "map_option manager
           (run (case waitTime now (manager g) of
                   Some w \<Rightarrow> [Enter 0 now now, Resume 0 (now + w + int lag)]
                 | None \<Rightarrow> [Enter 0 now (now + int lag)]) g)
         = Some (waitForCooldown now lag (manager g))"
proof (cases "waitTime now (manager g)")
  case None
  with assms show ?thesis
    by (simp add: waitForCooldown_def)
next
  case (Some w)
  then have "0 < w"
    by (auto simp add: waitTime_def Let_def split: if_splits)
  with Some assms show ?thesis
    by (simp add: waitForCooldown_def)
qed

text \<open>
  A call that nothing interleaves with records a time at least the cooldown after the
  time recorded before it.
\<close>

lemma waitForCooldown_spacing:
  "lastRequestTime cm + cooldownMs \<le> lastRequestTime (waitForCooldown now lag cm)"
  by (simp add: waitForCooldown_def waitTime_def record_request_def Let_def)

text \<open>
  Claim C3. Two callers that enter while the cooldown of an earlier admission is still
  running both read the same recorded time, both sleep until that cooldown ends, and are
  both admitted at the same clock reading, 13000: the spacing between their admissions is
  0 ms, not 3000 ms. The check and the update are separated by the sleep.
\<close>

theorem overlapping_callers_admitted_together:
  "run overlapping_schedule two_callers =
     Some \<lparr>manager = \<lparr>lastRequestTime = 13000\<rparr>,
           callers = [Admitted 13000, Admitted 13000], clock = 13000\<rparr>"
  by (simp add: overlapping_schedule_def two_callers_def waitTime_def cooldownMs_def
        record_request_def)

subsection \<open>C4: the two not-found answers\<close>

text \<open>
  Claim C4, as stated, fails: an empty search result and a search result without an exact
  match are both answered with 404, but the messages differ.
\<close>

theorem not_found_messages_differ:
  "fst (checkAdultStatus example_upstream 10500 0 (name_request ''Nobody'') ready_world) =
     \<lparr>status = 404, body = JObj [(''error'', JStr ''User not found'')]\<rparr>
 \<and> fst (checkAdultStatus example_upstream 10500 0 (name_request ''Bob'') ready_world) =
     \<lparr>status = 404, body = JObj [(''error'', JStr ''User not found with exact displayName match'')]\<rparr>
 \<and> body (fst (checkAdultStatus example_upstream 10500 0 (name_request ''Nobody'') ready_world))
   \<noteq> body (fst (checkAdultStatus example_upstream 10500 0 (name_request ''Bob'') ready_world))"
  by (simp add: checkAdultStatus_def name_request_def check_request_def resolve_def Let_def
        ready_world_api example_upstream_def user_not_found_response_def
        no_exact_match_response_def)

text \<open>
  Claim C4, amended. When the search returns no candidate whose display name equals the
  requested name, the response is 404 and no profile is fetched; the message is
  User not found for an empty result, and User not found with exact displayName match
  for a result that has candidates.
\<close>

theorem not_found_status_and_messages:
  assumes "query req ''username'' = Some (QString name)" and "name \<noteq> []"
    and "getApi (client w) = Inr a"
    and "searchAllUsers up name 100 False = Inr rs"
    and "\<forall>x\<in>set rs. displayName x \<noteq> name"
  shows "status (fst (checkAdultStatus up now lag req w)) = 404
       \<and> body (fst (checkAdultStatus up now lag req w)) =
           (if rs = [] then JObj [(''error'', JStr ''User not found'')]
            else JObj [(''error'', JStr ''User not found with exact displayName match'')])
       \<and> calls (snd (checkAdultStatus up now lag req w)) = calls w @ [SearchAllUsers name 100 False]"
  unfolding checkAdultStatus_named [OF assms(1,2)] resolve_not_found [OF assms(3-5)]
  by (simp add: user_not_found_response_def no_exact_match_response_def)

text \<open>
  A search that finds nobody, and a search for Bob that finds only bob.
\<close>

theorem not_found_status_and_messages_witness:
  "status (fst (checkAdultStatus example_upstream 10500 0 (name_request ''Nobody'') ready_world)) = 404
 \<and> body (fst (checkAdultStatus example_upstream 10500 0 (name_request ''Nobody'') ready_world)) =
     JObj [(''error'', JStr ''User not found'')]
 \<and> status (fst (checkAdultStatus example_upstream 10500 0 (name_request ''Bob'') ready_world)) = 404
 \<and> body (fst (checkAdultStatus example_upstream 10500 0 (name_request ''Bob'') ready_world)) =
     JObj [(''error'', JStr ''User not found with exact displayName match'')]
 \<and> calls (snd (checkAdultStatus example_upstream 10500 0 (name_request ''Bob'') ready_world)) =
     [SearchAllUsers ''Bob'' 100 False]"
proof -
  have search_n: "searchAllUsers example_upstream ''Nobody'' 100 False = Inr []"
    by (simp add: example_upstream_def)
  have none_n: "\<forall>x\<in>set ([] :: LimitedUser list). displayName x \<noteq> ''Nobody''"
    by simp
  have name_n: "''Nobody'' \<noteq> []" by simp
  have search_b: "searchAllUsers example_upstream ''Bob'' 100 False =
      Inr [\<lparr>user_id = ''usr_5'', displayName = ''bob''\<rparr>]"
    by (simp add: example_upstream_def)
  have none_b: "\<forall>x\<in>set [\<lparr>user_id = ''usr_5'', displayName = ''bob''\<rparr>]. displayName x \<noteq> ''Bob''"
    by simp
  have name_b: "''Bob'' \<noteq> []" by simp
  from not_found_status_and_messages
         [OF name_request_username name_n ready_world_api search_n none_n, of 10500 0]
       not_found_status_and_messages
         [OF name_request_username name_b ready_world_api search_b none_b, of 10500 0]
  show ?thesis
    by (simp add: ready_world_def)
qed

subsection \<open>C5: admission failures\<close>

text \<open>
  Claim C5. A request whose path is not /health and that fails one of the three checks
  (no allow-listed user-agent, no allow-listed x-unity-version, no allow-listed calledfrom
  string) is answered with 404 and the body \<^verbatim>\<open>{"error":"Not found"}\<close>, whichever check
  failed and whichever route it was meant for; the session, the cooldown and the log of
  upstream calls are left as they were.
\<close>

theorem admission_failure_is_404:
  assumes "path req \<noteq> ''/health''"
    and "(\<forall>ua. req_get req ''user-agent'' = Some ua \<longrightarrow> ua \<notin> set ALLOWED_USER_AGENTS)
       \<or> (\<forall>v. req_get req ''x-unity-version'' = Some v \<longrightarrow> v \<notin> set ALLOWED_UNITY_VERSIONS)
       \<or> (\<forall>t. calledFrom req = Some (QString t) \<longrightarrow> t \<notin> set ALLOWED_CALLED_FROM)"
  shows "app up ts now lag rt req w =
           (Some \<lparr>status = 404, body = JObj [(''error'', JStr ''Not found'')]\<rparr>, w)"
proof -
  have "validation_middleware req = Some not_found_response"
    using assms
    by (auto simp add: validation_middleware_def Let_def includes_string_iff includes_qvalue_iff)
  then show ?thesis
    by (simp add: app_def not_found_response_def)
qed

text \<open>
  One request for each of the three checks.
\<close>

theorem admission_failure_is_404_witness:
  "app example_upstream ''2024-01-01T00:00:00.000Z'' 10500 0 Route_checkAdultStatus
     bad_agent_request ready_world =
     (Some \<lparr>status = 404, body = JObj [(''error'', JStr ''Not found'')]\<rparr>, ready_world)
 \<and> app example_upstream ''2024-01-01T00:00:00.000Z'' 10500 0 Route_checkAdultStatus
     bad_version_request ready_world =
     (Some \<lparr>status = 404, body = JObj [(''error'', JStr ''Not found'')]\<rparr>, ready_world)
 \<and> app example_upstream ''2024-01-01T00:00:00.000Z'' 10500 0 Route_checkAdultStatus
     bad_tag_request ready_world =
     (Some \<lparr>status = 404, body = JObj [(''error'', JStr ''Not found'')]\<rparr>, ready_world)"
proof -
  have p1: "path bad_agent_request \<noteq> ''/health''"
    and p2: "path bad_version_request \<noteq> ''/health''"
    and p3: "path bad_tag_request \<noteq> ''/health''"
    by (simp_all add: bad_agent_request_def bad_version_request_def bad_tag_request_def
          check_request_def)
  have "\<forall>ua. req_get bad_agent_request ''user-agent'' = Some ua \<longrightarrow> ua \<notin> set ALLOWED_USER_AGENTS"
    by (simp add: bad_agent_request_def check_request_def req_get_def unity_headers_def
          ALLOWED_USER_AGENTS_def)
  then have h1: "(\<forall>ua. req_get bad_agent_request ''user-agent'' = Some ua \<longrightarrow> ua \<notin> set ALLOWED_USER_AGENTS)
       \<or> (\<forall>v. req_get bad_agent_request ''x-unity-version'' = Some v \<longrightarrow> v \<notin> set ALLOWED_UNITY_VERSIONS)
       \<or> (\<forall>t. calledFrom bad_agent_request = Some (QString t) \<longrightarrow> t \<notin> set ALLOWED_CALLED_FROM)"
    by blast
  have "\<forall>v. req_get bad_version_request ''x-unity-version'' = Some v \<longrightarrow> v \<notin> set ALLOWED_UNITY_VERSIONS"
    by (simp add: bad_version_request_def check_request_def req_get_def unity_headers_def
          ALLOWED_UNITY_VERSIONS_def)
  then have h2: "(\<forall>ua. req_get bad_version_request ''user-agent'' = Some ua \<longrightarrow> ua \<notin> set ALLOWED_USER_AGENTS)
       \<or> (\<forall>v. req_get bad_version_request ''x-unity-version'' = Some v \<longrightarrow> v \<notin> set ALLOWED_UNITY_VERSIONS)
       \<or> (\<forall>t. calledFrom bad_version_request = Some (QString t) \<longrightarrow> t \<notin> set ALLOWED_CALLED_FROM)"
    by blast
  have "\<forall>t. calledFrom bad_tag_request = Some (QString t) \<longrightarrow> t \<notin> set ALLOWED_CALLED_FROM"
    by (simp add: bad_tag_request_def check_request_def calledFrom_def ALLOWED_CALLED_FROM_def)
  then have h3: "(\<forall>ua. req_get bad_tag_request ''user-agent'' = Some ua \<longrightarrow> ua \<notin> set ALLOWED_USER_AGENTS)
       \<or> (\<forall>v. req_get bad_tag_request ''x-unity-version'' = Some v \<longrightarrow> v \<notin> set ALLOWED_UNITY_VERSIONS)
       \<or> (\<forall>t. calledFrom bad_tag_request = Some (QString t) \<longrightarrow> t \<notin> set ALLOWED_CALLED_FROM)"
    by blast
  from admission_failure_is_404 [OF p1 h1] admission_failure_is_404 [OF p2 h2]
       admission_failure_is_404 [OF p3 h3]
  show ?thesis by simp
qed

subsection \<open>C6: upstream server errors\<close>

text \<open>
  Claim C6, as stated, fails: an error that is not a \<^verbatim>\<open>RequestError\<close> but carries the
  status 503 is answered with 503.
\<close>

theorem raw_5xx_passed_through:
  "fst (handleVRChatError (Error ''Service Unavailable'' (Number 503) Absent)) = 503
 \<and> fst (handleVRChatError (Error ''Service Unavailable'' (Number 503) Absent)) \<noteq> 502"
  by simp

text \<open>
  Claim C6, amended. A \<^verbatim>\<open>RequestError\<close> whose status code is 500 or more is answered with
  502. An error that is none of the library's classes and carries a numeric status
  (\<^verbatim>\<open>statusCode\<close>, else \<^verbatim>\<open>response.status\<close>) from 400 to 599 is answered with that status
  unchanged, 5xx included.
\<close>

theorem request_error_5xx_is_502:
  "(500 \<le> sc \<longrightarrow> fst (handleVRChatError (RequestError sc m)) = 502)
 \<and> (status_property e = Some sc \<and> 400 \<le> sc \<and> sc < 600 \<longrightarrow> fst (handleVRChatError e) = sc)"
proof (intro conjI impI)
  assume "500 \<le> sc"
  then show "fst (handleVRChatError (RequestError sc m)) = 502"
    by (simp add: httpStatus_def)
next
  assume h: "status_property e = Some sc \<and> 400 \<le> sc \<and> sc < 600"
  then show "fst (handleVRChatError e) = sc"
    by (cases e; cases "isAxiosLikeError e") (auto elim: nullish_coalesce.elims)
qed

text \<open>
  A \<^verbatim>\<open>RequestError\<close> with status 503, and two other errors carrying 429 and 503.
\<close>

theorem request_error_5xx_is_502_witness:
  "fst (handleVRChatError (RequestError 503 ''Service Unavailable'')) = 502
 \<and> fst (handleVRChatError (Object ''[object Object]'' Nullish (Number 429))) = 429
 \<and> fst (handleVRChatError (Error ''Service Unavailable'' (Number 503) Absent)) = 503"
  using request_error_5xx_is_502 [of 503 "''Service Unavailable''"
          "Error ''Service Unavailable'' (Number 503) Absent"]
        request_error_5xx_is_502 [of 429 "''Too Many Requests''"
          "Object ''[object Object]'' Nullish (Number 429)"]
  by simp

subsection \<open>C7: no readiness without a successful login\<close>

text \<open>
  Claim C7. After any number of calls of \<^verbatim>\<open>initialize\<close> on a fresh client, none of which
  succeeded, \<^verbatim>\<open>isReady\<close> is false and \<^verbatim>\<open>getApi\<close> throws the error
  VRChat client is not initialized or authenticated; after a failed call the error that
  was raised is the one recorded.
\<close>

theorem no_success_never_ready:
  assumes "initialize_all attempts new_VRChatClient = (outcomes, c)"
    and "\<forall>r\<in>set outcomes. isl r"
  shows "\<not> isReady c
       \<and> getApi c = Inl (Error ''VRChat client is not initialized or authenticated'' Absent Absent)
       \<and> (outcomes \<noteq> [] \<longrightarrow> (\<exists>e. last outcomes = Inl e \<and> getInitializationError c = Some e))"
proof -
  have "\<not> isAuthenticated new_VRChatClient" by (simp add: new_VRChatClient_def)
  from initialize_all_failed [OF assms this]
  show ?thesis
    by (auto simp add: isReady_def getApi_def getInitializationError_def split: option.splits)
qed

text \<open>
  Four failed attempts: no credentials, a rejected login, a login that leaves no current
  user, and a thrown value that is no \<^verbatim>\<open>Error\<close>.
\<close>

theorem no_success_never_ready_witness:
  "fst (initialize_all failed_attempts new_VRChatClient) =
     [Inl (Error ''VRCHAT_USERNAME and VRCHAT_PASSWORD are required in .env file'' Absent Absent),
      Inl (RequestError 401 ''Invalid Username/Email or Password''),
      Inl (Error ''Authentication failed: currentUser is null'' Absent Absent),
      Inl (Error ''socket hang up'' Absent Absent)]
 \<and> \<not> isReady (snd (initialize_all failed_attempts new_VRChatClient))
 \<and> getApi (snd (initialize_all failed_attempts new_VRChatClient)) =
     Inl (Error ''VRChat client is not initialized or authenticated'' Absent Absent)
 \<and> getInitializationError (snd (initialize_all failed_attempts new_VRChatClient)) =
     Some (Error ''socket hang up'' Absent Absent)"
proof -
  have outcomes: "fst (initialize_all failed_attempts new_VRChatClient) =
     [Inl (Error ''VRCHAT_USERNAME and VRCHAT_PASSWORD are required in .env file'' Absent Absent),
      Inl (RequestError 401 ''Invalid Username/Email or Password''),
      Inl (Error ''Authentication failed: currentUser is null'' Absent Absent),
      Inl (Error ''socket hang up'' Absent Absent)]"
    by (simp add: failed_attempts_def new_VRChatClient_def initialize_def initialize_catch_def
          as_Error_def good_env_def Let_def)
  have run: "initialize_all failed_attempts new_VRChatClient =
      (fst (initialize_all failed_attempts new_VRChatClient),
       snd (initialize_all failed_attempts new_VRChatClient))"
    by simp
  have failed: "\<forall>r\<in>set (fst (initialize_all failed_attempts new_VRChatClient)). isl r"
    unfolding outcomes by simp
  from no_success_never_ready [OF run failed] outcomes
  show ?thesis by auto
qed

subsection \<open>C8: missing or non-string username\<close>

text \<open>
  Claim C8. When the username query value is missing, not a string, or the empty string,
  the handler answers 400 and leaves the cooldown, the session and the log of upstream
  calls untouched: no wait, no search, no fetch. The same holds for the application when
  the request has passed the admission middleware.
\<close>

theorem bad_username_is_400:
  assumes "\<forall>s. query req ''username'' = Some (QString s) \<longrightarrow> s = []"
  shows "checkAdultStatus up now lag req w =
           (\<lparr>status = 400,
             body = JObj [(''error'', JStr ''Username query parameter is required and must be a string'')]\<rparr>,
            w)
       \<and> (validation_middleware req = None \<longrightarrow>
            app up ts now lag Route_checkAdultStatus req w =
              (Some \<lparr>status = 400,
                     body = JObj [(''error'', JStr ''Username query parameter is required and must be a string'')]\<rparr>,
               w))"
proof -
  have "\<not> truthy_qvalue (query req ''username'') \<or> \<not> typeof_string (query req ''username'')"
    using assms by (cases "query req ''username''" rule: truthy_qvalue.cases) auto
  then have "checkAdultStatus up now lag req w = (bad_request_response, w)"
    by (auto simp add: checkAdultStatus_def Let_def)
  then show ?thesis
    by (simp add: app_def bad_request_response_def)
qed

text \<open>
  A request without username, and one where username is repeated and so parsed as an
  array.
\<close>

theorem bad_username_is_400_witness:
  "validation_middleware nameless_request = None
 \<and> app example_upstream ''2024-01-01T00:00:00.000Z'' 10500 0 Route_checkAdultStatus
       nameless_request ready_world =
     (Some \<lparr>status = 400,
            body = JObj [(''error'', JStr ''Username query parameter is required and must be a string'')]\<rparr>,
      ready_world)
 \<and> checkAdultStatus example_upstream 10500 0 repeated_name_request ready_world =
     (\<lparr>status = 400,
       body = JObj [(''error'', JStr ''Username query parameter is required and must be a string'')]\<rparr>,
      ready_world)"
proof -
  have missing: "\<forall>s. query nameless_request ''username'' = Some (QString s) \<longrightarrow> s = []"
    by (simp add: nameless_request_def check_request_def)
  have repeated: "\<forall>s. query repeated_name_request ''username'' = Some (QString s) \<longrightarrow> s = []"
    by (simp add: repeated_name_request_def check_request_def)
  have admitted: "validation_middleware nameless_request = None"
    by (simp add: validation_middleware_def nameless_request_def check_request_def
          unity_headers_def calledFrom_def req_get_def ALLOWED_USER_AGENTS_def
          ALLOWED_UNITY_VERSIONS_def ALLOWED_CALLED_FROM_def)
  from bad_username_is_400 [OF missing, of example_upstream 10500 0 ready_world
         "''2024-01-01T00:00:00.000Z''"]
       bad_username_is_400 [OF repeated, of example_upstream 10500 0 ready_world
         "''2024-01-01T00:00:00.000Z''"]
       admitted
  show ?thesis by simp
qed

subsection \<open>C9: calledfrom, query before header\<close>

text \<open>
  Claim C9. When the calledfrom query value is truthy, the x-called-from header has no
  influence on the middleware: any other header value, or none, gives the same outcome.
  A calledfrom query value that is an array or an object is rejected with 404 whatever
  the header says. An empty-string query value is treated as if the query parameter were
  not there, so the header is used.
\<close>

theorem calledfrom_query_before_header:
  "(truthy_qvalue (query req ''calledfrom'') \<longrightarrow>
      validation_middleware (req\<lparr>headers := (headers req)(''x-called-from'' := h)\<rparr>)
        = validation_middleware req)
 \<and> (path req \<noteq> ''/health''
      \<and> (query req ''calledfrom'' = Some (QArray xs) \<or> query req ''calledfrom'' = Some (QObject kvs)) \<longrightarrow>
      validation_middleware req = Some not_found_response)
 \<and> (query req ''calledfrom'' = Some (QString []) \<longrightarrow>
      calledFrom req = map_option QString (req_get req ''x-called-from'')
      \<and> validation_middleware req
          = validation_middleware (req\<lparr>query := (query req)(''calledfrom'' := None)\<rparr>))"
proof (intro conjI impI)
  assume "truthy_qvalue (query req ''calledfrom'')"
  then show "validation_middleware (req\<lparr>headers := (headers req)(''x-called-from'' := h)\<rparr>)
        = validation_middleware req"
    by (simp add: validation_middleware_def calledFrom_def req_get_def)
next
  assume "path req \<noteq> ''/health''
      \<and> (query req ''calledfrom'' = Some (QArray xs) \<or> query req ''calledfrom'' = Some (QObject kvs))"
  then show "validation_middleware req = Some not_found_response"
    by (auto simp add: validation_middleware_def calledFrom_def Let_def)
next
  assume "query req ''calledfrom'' = Some (QString [])"
  then show "calledFrom req = map_option QString (req_get req ''x-called-from'')"
    by (simp add: calledFrom_def)
next
  assume "query req ''calledfrom'' = Some (QString [])"
  then show "validation_middleware req
          = validation_middleware (req\<lparr>query := (query req)(''calledfrom'' := None)\<rparr>)"
    by (simp add: validation_middleware_def calledFrom_def req_get_def)
qed

text \<open>
  Three requests that all carry the allow-listed header loveworld: a query value that is
  not allow-listed, a repeated query value, and an empty query value.
\<close>

theorem calledfrom_query_before_header_witness:
  "req_get query_and_header_request ''x-called-from'' = Some ''loveworld''
 \<and> validation_middleware query_and_header_request = Some not_found_response
 \<and> req_get repeated_tag_request ''x-called-from'' = Some ''loveworld''
 \<and> validation_middleware repeated_tag_request = Some not_found_response
 \<and> calledFrom empty_tag_request = Some (QString ''loveworld'')
 \<and> validation_middleware empty_tag_request = None"
proof -
  have q1: "truthy_qvalue (query query_and_header_request ''calledfrom'')"
    by (simp add: query_and_header_request_def check_request_def)
  have no_header: "validation_middleware
      (query_and_header_request\<lparr>headers := (headers query_and_header_request)(''x-called-from'' := None)\<rparr>)
      = Some not_found_response"
    by (simp add: validation_middleware_def query_and_header_request_def check_request_def
          unity_headers_def calledFrom_def req_get_def ALLOWED_USER_AGENTS_def
          ALLOWED_UNITY_VERSIONS_def ALLOWED_CALLED_FROM_def)
  have q2: "path repeated_tag_request \<noteq> ''/health''
      \<and> (query repeated_tag_request ''calledfrom'' = Some (QArray [QString ''loveworld'', QString ''loveworld''])
         \<or> query repeated_tag_request ''calledfrom'' = Some (QObject []))"
    by (simp add: repeated_tag_request_def check_request_def)
  have q3: "query empty_tag_request ''calledfrom'' = Some (QString [])"
    by (simp add: empty_tag_request_def check_request_def)
  have header_only: "validation_middleware
      (empty_tag_request\<lparr>query := (query empty_tag_request)(''calledfrom'' := None)\<rparr>) = None"
    by (simp add: validation_middleware_def empty_tag_request_def check_request_def
          unity_headers_def calledFrom_def req_get_def ALLOWED_USER_AGENTS_def
          ALLOWED_UNITY_VERSIONS_def ALLOWED_CALLED_FROM_def)
  have hs: "req_get query_and_header_request ''x-called-from'' = Some ''loveworld''"
    "req_get repeated_tag_request ''x-called-from'' = Some ''loveworld''"
    "req_get empty_tag_request ''x-called-from'' = Some ''loveworld''"
    by (simp_all add: query_and_header_request_def repeated_tag_request_def
          empty_tag_request_def check_request_def req_get_def)
  from calledfrom_query_before_header [of query_and_header_request None "[]" "[]"]
       calledfrom_query_before_header [of repeated_tag_request None
          "[QString ''loveworld'', QString ''loveworld'']" "[]"]
       calledfrom_query_before_header [of empty_tag_request None "[]" "[]"]
       q1 no_header q2 q3 header_only hs
  show ?thesis by simp
qed

subsection \<open>C10: the healthy answer names the account\<close>

text \<open>
  Claim C10. \<^verbatim>\<open>isReady\<close> is true only when the stored current user is not null, and
  whenever the health handler answers 200 the member authenticatedUser is the display
  name of that user, a string and never null.
\<close>

theorem healthy_names_authenticated_user:
  "(isReady c \<longrightarrow> getCurrentUser c \<noteq> None)
 \<and> (status (health ts c) = 200 \<longrightarrow>
      (\<exists>u. getCurrentUser c = Some u
         \<and> json_field ''authenticatedUser'' (body (health ts c)) = Some (JStr (displayName u))))"
  by (auto simp add: isReady_def getCurrentUser_def health_def)

text \<open>
  The client after a successful login.
\<close>

theorem healthy_names_authenticated_user_witness:
  "isReady ready_client
 \<and> status (health ''2024-01-01T00:00:00.000Z'' ready_client) = 200
 \<and> json_field ''authenticatedUser'' (body (health ''2024-01-01T00:00:00.000Z'' ready_client)) =
     Some (JStr ''Proxy'')"
proof -
  have ready: "isReady ready_client"
    by (simp add: ready_client_def initialize_def good_env_def new_VRChatClient_def isReady_def
          Let_def)
  then have ok: "status (health ''2024-01-01T00:00:00.000Z'' ready_client) = 200"
    by (simp add: health_def)
  have user: "getCurrentUser ready_client = Some proxy_account"
    by (simp add: ready_client_def initialize_def good_env_def new_VRChatClient_def
          getCurrentUser_def Let_def)
  from healthy_names_authenticated_user [of ready_client "''2024-01-01T00:00:00.000Z''"] ready ok user
  show ?thesis by (simp add: proxy_account_def)
qed


end
